theory Spec2Isabelle
  imports Main "HOL-Library.AList" "HOL-Library.Char_ord" "HOL-Library.List_Lexorder"
begin

section \<open>JavaScript values\<close>

text \<open>
  The synchronizer and the event scope pass application state around as untyped
  JavaScript values (\<^verbatim>\<open>any\<close>, \<^verbatim>\<open>object | undefined\<close>). An object is an association
  list of its own enumerable properties; a well-formed one has distinct keys.
\<close>

datatype jsval =
    JUndefined
  | JNull
  | JBool bool
  | JNum int
  | JStr string
  | JObj "(string \<times> jsval) list"

type_synonym jsobj = "(string \<times> jsval) list"

text \<open>The \<^verbatim>\<open>typeof\<close> operator: \<^verbatim>\<open>typeof null\<close> is \<^verbatim>\<open>"object"\<close>.\<close>

fun typeof :: "jsval \<Rightarrow> string" where
  "typeof JUndefined = ''undefined''"
| "typeof JNull = ''object''"
| "typeof (JBool b) = ''boolean''"
| "typeof (JNum n) = ''number''"
| "typeof (JStr s) = ''string''"
| "typeof (JObj fs) = ''object''"



section \<open>Errors and observable effects\<close>

text \<open>
  Modelled from the spec: \<^verbatim>\<open>UserMeetingRole\<close>, declared in \<^verbatim>\<open>./interfaces\<close>, which is not
  among the sources. The specification has a role be one of Organizer, Presenter, Attendee
  and Guest.
\<close>

datatype role = Organizer | Presenter | Attendee | Guest

datatype error =
    TooManyCalls string
  | CallbackError string
  | TypeError
  | InvalidRole string "role list"

text \<open>
  What an operation of the synchronizer does to the outside world, in the order it does it:
  calls of the registered callbacks, signals handed to \<^verbatim>\<open>submitSignal\<close> of the container
  runtime, and lines written with \<^verbatim>\<open>console.error\<close>. \<^verbatim>\<open>message.clientId\<close> is
  \<^verbatim>\<open>string | null\<close>, and the non-null assertion \<^verbatim>\<open>message.clientId!\<close> checks nothing at run
  time, so a sender id is a \<open>string option\<close>.
\<close>

datatype effect =
    GetStateCalled string bool
  | UpdateStateCalled string bool jsval "string option"
  | SignalSubmitted string jsval
  | ConsoleError string error

section \<open>The per-container synchronizer\<close>

text \<open>
  \<^verbatim>\<open>GetAndUpdateStateHandlers\<close>: the two callbacks of a live object. A callback either
  returns or throws (\<open>Inl\<close>). The callbacks are taken as functions of their arguments: they
  do not call back into the synchronizer while it runs one of its operations, and the
  handlers held by a state say how the objects answer during the operation that starts in
  that state. The parameter \<^verbatim>\<open>id\<close> of the source is written \<open>oid\<close> throughout.
\<close>

record handlers =
  getState :: "bool \<Rightarrow> error + jsval"
  updateState :: "bool \<Rightarrow> jsval \<Rightarrow> string option \<Rightarrow> error + unit"

text \<open>
  The private fields of \<^verbatim>\<open>ContainerSynchronizer\<close>. \<open>runtime\<close> is the identity of the
  \<^verbatim>\<open>IRuntimeSignaler\<close> the synchronizer was created with; \<open>hTimer\<close> holds the period of the
  running interval timer, \<open>None\<close> for \<^verbatim>\<open>undefined\<close>.
\<close>

record container_sync =
  runtime :: nat
  objects :: "string \<rightharpoonup> handlers"
  unconnectedKeys :: "string list"
  connectedKeys :: "string list"
  refCount :: int
  hTimer :: "nat option"

definition CONNECT_EVENT :: string where
  "CONNECT_EVENT = ''connect''"

definition UPDATE_EVENT :: string where
  "UPDATE_EVENT = ''update''"

definition new_ContainerSynchronizer :: "nat \<Rightarrow> container_sync" where
  "new_ContainerSynchronizer rt =
     \<lparr>runtime = rt, objects = Map.empty, unconnectedKeys = [], connectedKeys = [],
      refCount = 0, hTimer = None\<rparr>"

text \<open>
  The \<^verbatim>\<open>keys.forEach\<close> loop of \<^verbatim>\<open>sendGroupEvent\<close>, with the object \<^verbatim>\<open>updates\<close> it fills as an
  accumulator. \<^verbatim>\<open>this._objects.get(id)?.getState(false)\<close> is \<^verbatim>\<open>undefined\<close> for an id that is
  not in the map, which the \<^verbatim>\<open>typeof\<close> test then skips; a throwing callback is caught inside
  the loop body and logged.
\<close>

fun collectUpdates ::
  "(string \<rightharpoonup> handlers) \<Rightarrow> string list \<Rightarrow> jsobj \<Rightarrow> jsobj \<times> effect list" where
  "collectUpdates objs [] updates = (updates, [])"
| "collectUpdates objs (oid # ids) updates =
     (case objs oid of
        None \<Rightarrow> collectUpdates objs ids updates
      | Some h \<Rightarrow>
          (case getState h False of
             Inl err \<Rightarrow>
               (let (u, tr) = collectUpdates objs ids updates
                in (u, GetStateCalled oid False # ConsoleError ''LiveObjectSynchronizer: error getting an objects state'' err # tr))
           | Inr state \<Rightarrow>
               (let (u, tr) = collectUpdates objs ids
                      (if typeof state = ''object'' then AList.update oid state updates else updates)
                in (u, GetStateCalled oid False # tr))))"

text \<open>\<^verbatim>\<open>sendGroupEvent\<close>: one signal if \<^verbatim>\<open>Object.keys(updates).length > 0\<close>, none otherwise.\<close>

definition sendGroupEvent :: "string list \<Rightarrow> string \<Rightarrow> container_sync \<Rightarrow> effect list" where
  "sendGroupEvent keys evt s =
     (let (updates, tr) = collectUpdates (objects s) keys []
      in if length (map fst updates) > 0 then tr @ [SignalSubmitted evt (JObj updates)] else tr)"

text \<open>
  \<^verbatim>\<open>registerObject\<close>. \<open>connected\<close> is what \<^verbatim>\<open>this._runtime.connected\<close> reads at the call and
  \<open>interval\<close> is \<^verbatim>\<open>LiveObjectSynchronizer.updateInterval\<close>. The function returns whether it
  threw, the synchronizer as it is left, and the effects. \<^verbatim>\<open>handlers.getState(true)\<close> is called
  outside any \<^verbatim>\<open>try\<close>, after the object has been stored: when it throws, the exception leaves
  \<^verbatim>\<open>registerObject\<close> with the map already updated and nothing else done.
\<close>

definition registerObject ::
  "bool \<Rightarrow> nat \<Rightarrow> string \<Rightarrow> handlers \<Rightarrow> container_sync \<Rightarrow> (error + unit) \<times> container_sync \<times> effect list" where
  "registerObject connected interval oid h s =
     (if objects s oid \<noteq> None then (Inl (TooManyCalls oid), s, [])
      else
        (let s1 = s\<lparr>objects := (objects s)(oid \<mapsto> h)\<rparr>;
             startTimer = (\<lambda>s2. s2\<lparr>refCount := refCount s2 + 1,
                                    hTimer := (if refCount s2 = 0 then Some interval else hTimer s2)\<rparr>)
         in if connected then
              (case getState h True of
                 Inl err \<Rightarrow> (Inl err, s1, [GetStateCalled oid True])
               | Inr state \<Rightarrow>
                   (Inr (),
                    startTimer (s1\<lparr>connectedKeys := connectedKeys s1 @ [oid]\<rparr>),
                    [GetStateCalled oid True, SignalSubmitted CONNECT_EVENT (JObj [(oid, state)])]))
            else (Inr (), startTimer (s1\<lparr>unconnectedKeys := unconnectedKeys s1 @ [oid]\<rparr>), [])))"

text \<open>
  \<^verbatim>\<open>unregisterObject\<close>: the returned flag says that the last object is gone. On that path the
  function returns before the key lists are filtered.
\<close>

definition unregisterObject :: "string \<Rightarrow> container_sync \<Rightarrow> bool \<times> container_sync" where
  "unregisterObject oid s =
     (if objects s oid \<noteq> None then
        (let s1 = s\<lparr>objects := (objects s)(oid := None), refCount := refCount s - 1\<rparr>
         in if refCount s1 = 0 then (True, s1\<lparr>hTimer := None\<rparr>)
            else (False, s1\<lparr>connectedKeys := filter (\<lambda>key. key \<noteq> oid) (connectedKeys s1),
                             unconnectedKeys := filter (\<lambda>key. key \<noteq> oid) (unconnectedKeys s1)\<rparr>))
      else (False, s))"

text \<open>
  The timer callback installed by \<^verbatim>\<open>registerObject\<close>: one \<^verbatim>\<open>sendGroupEvent\<close> over the
  connected keys. \<^verbatim>\<open>submitSignal\<close> is taken not to throw, so the \<^verbatim>\<open>catch\<close> around the call
  has nothing to catch.
\<close>

definition tick :: "container_sync \<Rightarrow> effect list" where
  "tick s = sendGroupEvent (connectedKeys s) UPDATE_EVENT s"




text \<open>\<^verbatim>\<open>IInboundSignalMessage\<close>: \<^verbatim>\<open>{type: string, clientId: string | null, content: any}\<close>.\<close>

record message =
  msg_type :: string
  msg_clientId :: "string option"
  msg_content :: jsval


section \<open>The object synchronizer facade and the registry\<close>

text \<open>
  \<^verbatim>\<open>LiveObjectSynchronizer._synchronizers\<close>: the static map from container runtimes (by
  identity) to their synchronizers. \<open>conn\<close> tells which runtimes are connected.
\<close>

type_synonym registry = "nat \<rightharpoonup> container_sync"

definition LOS_registerObject ::
  "(nat \<Rightarrow> bool) \<Rightarrow> nat \<Rightarrow> nat \<Rightarrow> nat \<Rightarrow> string \<Rightarrow> handlers \<Rightarrow> registry
     \<Rightarrow> (error + unit) \<times> registry \<times> effect list" where
  "LOS_registerObject conn interval rt containerRuntime oid h reg =
     (let synchronizer = (case reg containerRuntime of
                            None \<Rightarrow> new_ContainerSynchronizer rt
                          | Some s \<Rightarrow> s);
          (r, synchronizer', tr) =
             registerObject (conn (runtime synchronizer)) interval oid h synchronizer
      in (r, reg(containerRuntime \<mapsto> synchronizer'), tr))"

definition LOS_unregisterObject :: "nat \<Rightarrow> string \<Rightarrow> registry \<Rightarrow> registry" where
  "LOS_unregisterObject containerRuntime oid reg =
     (case reg containerRuntime of
        None \<Rightarrow> reg
      | Some s \<Rightarrow>
          (let (lastObject, s') = unregisterObject oid s
           in if lastObject then reg(containerRuntime := None) else reg(containerRuntime \<mapsto> s')))"

text \<open>The instance fields of \<^verbatim>\<open>LiveObjectSynchronizer\<close>, its constructor and \<^verbatim>\<open>dispose\<close>.\<close>

record facade =
  f_id :: string
  f_containerRuntime :: nat
  f_isDisposed :: bool

definition new_LiveObjectSynchronizer ::
  "(nat \<Rightarrow> bool) \<Rightarrow> nat \<Rightarrow> string \<Rightarrow> nat \<Rightarrow> nat \<Rightarrow> handlers \<Rightarrow> registry
     \<Rightarrow> (error + facade) \<times> registry \<times> effect list" where
  "new_LiveObjectSynchronizer conn interval oid rt containerRuntime h reg =
     (case LOS_registerObject conn interval rt containerRuntime oid h reg of
        (Inl err, reg', tr) \<Rightarrow> (Inl err, reg', tr)
      | (Inr u, reg', tr) \<Rightarrow>
          (Inr \<lparr>f_id = oid, f_containerRuntime = containerRuntime, f_isDisposed = False\<rparr>, reg', tr))"

definition dispose :: "facade \<Rightarrow> registry \<Rightarrow> facade \<times> registry" where
  "dispose f reg =
     (if \<not> f_isDisposed f then
        (f\<lparr>f_isDisposed := True\<rparr>, LOS_unregisterObject (f_containerRuntime f) (f_id f) reg)
      else (f, reg))"

section \<open>The event scope\<close>

text \<open>
  Modelled from the spec: \<^verbatim>\<open>LiveEvent.verifyRolesAllowed\<close>, which the signal handler of
  \<^verbatim>\<open>LiveEventScope\<close> calls and whose file is not among the sources. The specification says
  it "returns true if \<^verbatim>\<open>allowed\<close> is empty, otherwise whether the intersection with the
  client's roles is non-empty". \<open>lookup\<close> is the role lookup, which may fail; a failure
  rejects the promise (\<open>Inl\<close>).
\<close>

definition verifyRolesAllowed ::
  "(string \<Rightarrow> error + role list) \<Rightarrow> string \<Rightarrow> role list \<Rightarrow> error + bool" where
  "verifyRolesAllowed lookup clientId allowed =
     (if allowed = [] then Inr True
      else (case lookup clientId of
              Inl err \<Rightarrow> Inl err
            | Inr roles \<Rightarrow> Inr (list_ex (\<lambda>r. r \<in> set allowed) roles)))"

text \<open>
  A listener added with \<^verbatim>\<open>onEvent\<close>: the event name it was registered for, an identity, and
  whether a call of it returns or throws. \<open>ListenerCalled\<close> records a call with its two
  arguments; \<open>ErrorEventSent\<close> records a call of \<^verbatim>\<open>logger.sendErrorEvent\<close>.
\<close>

record listener =
  l_event :: string
  l_id :: nat
  l_run :: "jsval \<Rightarrow> bool \<Rightarrow> error + unit"

datatype scope_effect =
    ListenerCalled nat jsval bool
  | ErrorEventSent string error

text \<open>
  The fields of \<^verbatim>\<open>LiveEventScope\<close>: \<^verbatim>\<open>_allowedRoles\<close> and the listeners of its private
  \<^verbatim>\<open>emitter\<close>, in the order they were added. The forwarder of \<^verbatim>\<open>"error"\<close> events that the
  constructor adds is one of them.
\<close>

record event_scope =
  allowedRoles :: "role list"
  listeners :: "listener list"

text \<open>
  \<^verbatim>\<open>emitter.emit(type, content, local)\<close> of Node's \<^verbatim>\<open>EventEmitter\<close>: the listeners of the
  event are called in the order they were added; an exception of one of them leaves
  \<^verbatim>\<open>emit\<close> at once, and the listeners after it are not called.
\<close>

fun emit :: "listener list \<Rightarrow> string \<Rightarrow> jsval \<Rightarrow> bool \<Rightarrow> scope_effect list \<times> error option" where
  "emit [] ev content local = ([], None)"
| "emit (l # ls) ev content local =
     (if l_event l = ev then
        (case l_run l content local of
           Inl err \<Rightarrow> ([ListenerCalled (l_id l) content local], Some err)
         | Inr u \<Rightarrow>
             (let (tr, r) = emit ls ev content local
              in (ListenerCalled (l_id l) content local # tr, r)))
      else emit ls ev content local)"

text \<open>
  The listener the constructor of \<^verbatim>\<open>LiveEventScope\<close> puts on the runtime's \<^verbatim>\<open>"signal"\<close>
  event. \<open>verify\<close> stands for \<^verbatim>\<open>LiveEvent.verifyRolesAllowed\<close> and \<open>connected\<close> for what
  \<^verbatim>\<open>this._runtime.connected\<close> reads. The assignment to \<^verbatim>\<open>message.content.clientId\<close> comes
  first: it throws a \<^verbatim>\<open>TypeError\<close> out of the handler when the content is \<^verbatim>\<open>null\<close> or
  \<^verbatim>\<open>undefined\<close>, and (module code being strict) when it is a primitive. The promise of
  \<open>verify\<close> and its \<^verbatim>\<open>then\<close>/\<^verbatim>\<open>catch\<close> are run to their end as one step: an exception of
  a listener rejects the promise of \<^verbatim>\<open>then\<close> and is logged by \<^verbatim>\<open>catch\<close>.
\<close>

definition scope_onSignal ::
  "(string \<Rightarrow> role list \<Rightarrow> error + bool) \<Rightarrow> bool \<Rightarrow> event_scope \<Rightarrow> message \<Rightarrow> bool
     \<Rightarrow> (error + unit) \<times> scope_effect list" where
  "scope_onSignal verify connected sc m local =
     (case msg_content m of
        JObj fs \<Rightarrow>
          (case msg_clientId m of
             None \<Rightarrow> (Inr (), [])
           | Some clientId \<Rightarrow>
               (let content = JObj (AList.update ''clientId'' (JStr clientId) fs)
                in if connected then
                     (case verify clientId (allowedRoles sc) of
                        Inl err \<Rightarrow> (Inr (), [ErrorEventSent ''SharedEvent:invalidRole'' err])
                      | Inr value \<Rightarrow>
                          (if value then
                             (case emit (listeners sc) (msg_type m) content local of
                                (tr, None) \<Rightarrow> (Inr (), tr)
                              | (tr, Some err) \<Rightarrow>
                                  (Inr (), tr @ [ErrorEventSent ''SharedEvent:invalidRole'' err]))
                           else
                             (Inr (),
                              [ErrorEventSent ''SharedEvent:invalidRole''
                                 (InvalidRole clientId (allowedRoles sc))])))
                   else (Inr (), [])))
      | v \<Rightarrow> (Inl TypeError, []))"

section \<open>The freshness rule\<close>

text \<open>
  Modelled from the spec: the envelope \<^verbatim>\<open>ILiveEvent\<close> and the comparison
  \<^verbatim>\<open>LiveEvent.isNewer\<close>, whose files are not among the sources. The specification has
  "\<^verbatim>\<open>a\<close> is newer than \<^verbatim>\<open>b\<close> iff \<^verbatim>\<open>a.timestamp > b.timestamp\<close>, or
  (\<^verbatim>\<open>a.timestamp == b.timestamp\<close> and \<^verbatim>\<open>a.clientId > b.clientId\<close> by lexicographic
  order)". Envelopes that reach a consumer carry the sender's client id, a string; strings
  are compared character by character, a proper prefix being smaller. Two envelopes are
  equivalent for the rule when they agree on time stamp and client id, whatever their
  names and payloads.
\<close>

record live_event =
  ev_name :: string
  ev_clientId :: string
  ev_timestamp :: int
  ev_payload :: jsobj

definition newer :: "live_event \<Rightarrow> live_event \<Rightarrow> bool" where
  "newer a b \<longleftrightarrow>
     ev_timestamp a > ev_timestamp b \<or>
     (ev_timestamp a = ev_timestamp b \<and> ev_clientId a > ev_clientId b)"

definition same_stamp :: "live_event \<Rightarrow> live_event \<Rightarrow> bool" where
  "same_stamp a b \<longleftrightarrow> ev_timestamp a = ev_timestamp b \<and> ev_clientId a = ev_clientId b"

section \<open>Auxiliary notions for the statements\<close>

text \<open>
  What one pass of the loop of \<^verbatim>\<open>sendGroupEvent\<close> stores for an id: the state its
  \<^verbatim>\<open>getState(false)\<close> returns, provided the id is in the objects map, the callback does not
  throw and \<^verbatim>\<open>typeof state == "object"\<close>.
\<close>

definition object_state :: "(string \<rightharpoonup> handlers) \<Rightarrow> string \<Rightarrow> jsval option" where
  "object_state objs oid =
     (case objs oid of
        None \<Rightarrow> None
      | Some h \<Rightarrow>
          (case getState h False of
             Inl err \<Rightarrow> None
           | Inr state \<Rightarrow> if typeof state = ''object'' then Some state else None))"

text \<open>The signals among the effects of an operation.\<close>

fun is_signal :: "effect \<Rightarrow> bool" where
  "is_signal (SignalSubmitted ty c) = True"
| "is_signal e = False"

text \<open>
  The specification's wording of what a tick gathers: the pairs of an id of
  \<^verbatim>\<open>connectedKeys\<close> and its \<^verbatim>\<open>getState(false)\<close>, for the ids whose callback returned
  something other than none (\<^verbatim>\<open>undefined\<close>).
\<close>

definition non_none_states :: "container_sync \<Rightarrow> (string \<times> jsval) list" where
  "non_none_states s =
     concat (map (\<lambda>oid. case objects s oid of
                           None \<Rightarrow> []
                         | Some h \<Rightarrow>
                             (case getState h False of
                                Inl err \<Rightarrow> []
                              | Inr state \<Rightarrow> if state = JUndefined then [] else [(oid, state)]))
                 (connectedKeys s))"

text \<open>
  Live objects for the examples: one whose \<^verbatim>\<open>getState\<close> always returns the given value,
  one whose \<^verbatim>\<open>getState\<close> always throws.
\<close>

definition reporting :: "jsval \<Rightarrow> handlers" where
  "reporting v =
     \<lparr>getState = (\<lambda>connecting. Inr v), updateState = (\<lambda>connecting state senderId. Inr ())\<rparr>"

definition failing :: handlers where
  "failing =
     \<lparr>getState = (\<lambda>connecting. Inl (CallbackError ''getState failed'')),
      updateState = (\<lambda>connecting state senderId. Inr ())\<rparr>"

text \<open>
  The synchronizer after the given objects have been registered, in that order, on a
  connected runtime with the default update interval; a signal sent by a peer.
\<close>

definition connected_sync :: "(string \<times> handlers) list \<Rightarrow> container_sync" where
  "connected_sync hs =
     \<lparr>runtime = 0, objects = map_of hs, unconnectedKeys = [], connectedKeys = map fst hs,
      refCount = int (length hs), hTimer = (if hs = [] then None else Some 5000)\<rparr>"

definition signal_from :: "string \<Rightarrow> string \<Rightarrow> jsval \<Rightarrow> message" where
  "signal_from sender ty content = \<lparr>msg_type = ty, msg_clientId = Some sender, msg_content = content\<rparr>"

text \<open>
  A listener that returns normally whatever it is given, and an envelope with the given time
  stamp and client id.
\<close>

definition listening :: "string \<Rightarrow> nat \<Rightarrow> listener" where
  "listening ev n = \<lparr>l_event = ev, l_id = n, l_run = (\<lambda>evt local. Inr ())\<rparr>"

definition stamped :: "int \<Rightarrow> string \<Rightarrow> live_event" where
  "stamped t c = \<lparr>ev_name = ''update'', ev_clientId = c, ev_timestamp = t, ev_payload = []\<rparr>"

section \<open>Facts about the two loops\<close>

lemma collectUpdates_fst_Cons:
  "fst (collectUpdates objs (k # ids) u) =
     fst (collectUpdates objs ids
            (case object_state objs k of None \<Rightarrow> u | Some st \<Rightarrow> AList.update k st u))"
  by (simp add: object_state_def split: option.split sum.split prod.split)

lemma collectUpdates_snd_Cons:
  "filter is_signal (snd (collectUpdates objs (k # ids) u)) =
     filter is_signal (snd (collectUpdates objs ids
            (case object_state objs k of None \<Rightarrow> u | Some st \<Rightarrow> AList.update k st u)))"
  by (simp add: object_state_def split: option.split sum.split prod.split)

lemma collectUpdates_no_signal:
  "filter is_signal (snd (collectUpdates objs ids u)) = []"
proof (induction ids arbitrary: u)
  case Nil
  show ?case by simp
next
  case (Cons k ids)
  show ?case unfolding collectUpdates_snd_Cons by (rule Cons.IH)
qed


lemma collectUpdates_Nil:
  "fst (collectUpdates objs ids u) = [] \<longleftrightarrow> u = [] \<and> (\<forall>k\<in>set ids. object_state objs k = None)"
proof (induction ids arbitrary: u)
  case Nil
  show ?case by simp
next
  case (Cons a ids)
  show ?case
    unfolding collectUpdates_fst_Cons Cons.IH
    by (cases "object_state objs a") auto
qed








lemma sendGroupEvent_signals:
  "filter is_signal (sendGroupEvent keys evt s) =
     (if fst (collectUpdates (objects s) keys []) = [] then []
      else [SignalSubmitted evt (JObj (fst (collectUpdates (objects s) keys [])))])"
  using collectUpdates_no_signal [of "objects s" keys "[]"]
  by (cases "collectUpdates (objects s) keys []") (simp add: sendGroupEvent_def)







lemma non_none_states_Nil:
  assumes "non_none_states s = []" and "k \<in> set (connectedKeys s)"
  shows "object_state (objects s) k = None"
proof -
  from assms have "(case objects s k of
                           None \<Rightarrow> []
                         | Some h \<Rightarrow>
                             (case getState h False of
                                Inl err \<Rightarrow> []
                              | Inr state \<Rightarrow> if state = JUndefined then [] else [(k, state)])) = []"
    by (simp add: non_none_states_def)
  then show ?thesis
    by (auto simp: object_state_def split: option.splits sum.splits if_splits)
qed




lemma collectUpdates_snd_cases:
  "e \<in> set (snd (collectUpdates objs (a # ids) u)) \<Longrightarrow>
   e = GetStateCalled a False \<or> (\<exists>err. e = ConsoleError ''LiveObjectSynchronizer: error getting an objects state'' err) \<or>
   e \<in> set (snd (collectUpdates objs ids
               (case object_state objs a of None \<Rightarrow> u | Some st \<Rightarrow> AList.update a st u)))"
  by (auto simp add: object_state_def split: option.splits sum.splits prod.splits if_splits)

lemma collectUpdates_polled:
  "GetStateCalled k c \<in> set (snd (collectUpdates objs ids u)) \<Longrightarrow> k \<in> set ids"
proof (induction ids arbitrary: u)
  case Nil
  then show ?case by simp
next
  case (Cons a ids)
  from collectUpdates_snd_cases [OF Cons.prems]
  have "k = a \<or> GetStateCalled k c \<in> set (snd (collectUpdates objs ids
               (case object_state objs a of None \<Rightarrow> u | Some st \<Rightarrow> AList.update a st u)))"
    by auto
  then show ?case using Cons.IH by auto
qed

lemma sendGroupEvent_polled:
  assumes "GetStateCalled k c \<in> set (sendGroupEvent keys evt s)"
  shows "k \<in> set keys"
proof -
  from assms have "GetStateCalled k c \<in> set (snd (collectUpdates (objects s) keys []))"
    by (cases "collectUpdates (objects s) keys []") (auto simp: sendGroupEvent_def split: if_splits)
  then show ?thesis by (rule collectUpdates_polled)
qed



section \<open>Facts about emitting and about the freshness rule\<close>

lemma emit_calls:
  "ListenerCalled lid env loc \<in> set (fst (emit ls ev content local)) \<Longrightarrow>
   env = content \<and> loc = local"
  by (induction ls) (auto split: if_splits sum.splits prod.splits)

lemma emit_all:
  "\<forall>l\<in>set ls. l_event l = ev \<longrightarrow> l_run l content local = Inr () \<Longrightarrow>
   emit ls ev content local =
     (map (\<lambda>l. ListenerCalled (l_id l) content local) (filter (\<lambda>l. l_event l = ev) ls), None)"
  by (induction ls) auto

lemma newer_asym: "newer a b \<Longrightarrow> \<not> newer b a"
proof
  assume ab: "newer a b" and ba: "newer b a"
  from ab consider "ev_timestamp b < ev_timestamp a"
    | "ev_timestamp a = ev_timestamp b" and "ev_clientId b < ev_clientId a"
    unfolding newer_def by blast
  then show False
  proof cases
    case 1
    with ba show False unfolding newer_def by simp
  next
    case 2
    with ba have "ev_clientId a < ev_clientId b" unfolding newer_def by simp
    with 2(2) show False using less_asym by blast
  qed
qed

lemma newer_trans: "newer a b \<Longrightarrow> newer b c \<Longrightarrow> newer a c"
  unfolding newer_def
  using less_trans [of "ev_clientId c" "ev_clientId b" "ev_clientId a"] by auto

lemma newer_trichotomy:
  "(newer a b \<and> \<not> newer b a \<and> \<not> same_stamp a b) \<or>
   (\<not> newer a b \<and> newer b a \<and> \<not> same_stamp a b) \<or>
   (\<not> newer a b \<and> \<not> newer b a \<and> same_stamp a b)"
proof (cases "ev_timestamp a" "ev_timestamp b" rule: linorder_cases)
  case less
  then show ?thesis by (simp add: newer_def same_stamp_def)
next
  case greater
  then show ?thesis by (simp add: newer_def same_stamp_def)
next
  case equal
  show ?thesis
  proof (cases "ev_clientId a" "ev_clientId b" rule: linorder_cases)
    case less
    then have "\<not> ev_clientId b < ev_clientId a" and "ev_clientId a \<noteq> ev_clientId b"
      by (simp_all add: less_asym)
    with less equal show ?thesis by (simp add: newer_def same_stamp_def)
  next
    case equal': equal
    with equal show ?thesis by (simp add: newer_def same_stamp_def)
  next
    case greater
    then have "\<not> ev_clientId a < ev_clientId b" and "ev_clientId a \<noteq> ev_clientId b"
      by (simp_all add: less_asym)
    with greater equal show ?thesis by (simp add: newer_def same_stamp_def)
  qed
qed

section \<open>Registration while connected\<close>

text \<open>
  C1, amended. When an id that is not yet in the objects map is registered while the runtime
  is connected, \<^verbatim>\<open>getState(true)\<close> is called once and, whenever it returns, whatever the
  value (none, that is \<^verbatim>\<open>undefined\<close>, included), exactly one \<^verbatim>\<open>connect\<close> signal carrying
  \<^verbatim>\<open>{id: state}\<close> is submitted at once and the id is appended to \<^verbatim>\<open>connectedKeys\<close>; the
  object is stored, the reference count goes up by one and the timer is started if the
  count was zero.
\<close>

theorem registerObject_connected:
  assumes "objects s oid = None" and "getState h True = Inr state"
  shows "registerObject True interval oid h s =
     (Inr (),
      s\<lparr>objects := (objects s)(oid \<mapsto> h),
        connectedKeys := connectedKeys s @ [oid],
        refCount := refCount s + 1,
        hTimer := (if refCount s = 0 then Some interval else hTimer s)\<rparr>,
      [GetStateCalled oid True, SignalSubmitted CONNECT_EVENT (JObj [(oid, state)])])"
  using assms by (simp add: registerObject_def Let_def)

text \<open>
  The example registers \<^verbatim>\<open>o1\<close> with state \<^verbatim>\<open>{v: 1}\<close> on a fresh synchronizer. The
  second fact is the case the claim excludes: \<^verbatim>\<open>getState(true)\<close> returns \<^verbatim>\<open>undefined\<close>,
  and a \<^verbatim>\<open>connect\<close> signal carrying \<^verbatim>\<open>{o1: undefined}\<close> is submitted all the same.
\<close>

theorem registerObject_connected_witness:
  "objects (new_ContainerSynchronizer 0) ''o1'' = None \<and>
   getState (reporting (JObj [(''v'', JNum 1)])) True = Inr (JObj [(''v'', JNum 1)]) \<and>
   registerObject True 5000 ''o1'' (reporting (JObj [(''v'', JNum 1)])) (new_ContainerSynchronizer 0) =
     (Inr (),
      \<lparr>runtime = 0, objects = [''o1'' \<mapsto> reporting (JObj [(''v'', JNum 1)])],
       unconnectedKeys = [], connectedKeys = [''o1''], refCount = 1, hTimer = Some 5000\<rparr>,
      [GetStateCalled ''o1'' True,
       SignalSubmitted ''connect'' (JObj [(''o1'', JObj [(''v'', JNum 1)])])])"
  using registerObject_connected [of "new_ContainerSynchronizer 0" "''o1''"
      "reporting (JObj [(''v'', JNum 1)])" "JObj [(''v'', JNum 1)]" 5000]
  by (simp add: new_ContainerSynchronizer_def reporting_def CONNECT_EVENT_def)

theorem registerObject_none_state_counterexample:
  "getState (reporting JUndefined) True = Inr JUndefined \<and>
   snd (snd (registerObject True 5000 ''o1'' (reporting JUndefined) (new_ContainerSynchronizer 0))) =
     [GetStateCalled ''o1'' True, SignalSubmitted ''connect'' (JObj [(''o1'', JUndefined)])]"
  by (simp add: registerObject_def new_ContainerSynchronizer_def reporting_def CONNECT_EVENT_def Let_def)

section \<open>The role gate with no allowed roles\<close>

text \<open>
  C2, amended. For an event scope whose \<^verbatim>\<open>allowedRoles\<close> is empty, every inbound signal
  whose content is an object and whose carrier-supplied client id is not null, received
  while the runtime is connected, passes the role gate and is delivered, with the client id
  written into it, once to each listener registered for its event name, in the order of
  registration, provided none of these listeners throws; the handler itself does not throw
  and logs nothing.
\<close>

theorem empty_allowedRoles_delivers:
  assumes "allowedRoles sc = []" and "msg_clientId m = Some cid" and "msg_content m = JObj fs"
    and "\<forall>l\<in>set (listeners sc). l_event l = msg_type m \<longrightarrow>
           l_run l (JObj (AList.update ''clientId'' (JStr cid) fs)) local = Inr ()"
  shows "scope_onSignal (verifyRolesAllowed lookup) True sc m local =
     (Inr (),
      map (\<lambda>l. ListenerCalled (l_id l) (JObj (AList.update ''clientId'' (JStr cid) fs)) local)
        (filter (\<lambda>l. l_event l = msg_type m) (listeners sc)))"
  using assms(1-3) emit_all [OF assms(4)]
  by (simp add: scope_onSignal_def verifyRolesAllowed_def)

text \<open>
  The example has two listeners for \<^verbatim>\<open>"transport"\<close> and one for another event. In the
  second fact the same kind of signal reaches a scope whose runtime is not connected:
  \<^verbatim>\<open>allowedRoles\<close> is empty, the client id is not null, a listener is registered for the
  event, and nothing is delivered.
\<close>

theorem empty_allowedRoles_delivers_witness:
  "allowedRoles \<lparr>allowedRoles = [], listeners = [listening ''transport'' 1, listening ''other'' 2, listening ''transport'' 3]\<rparr> = [] \<and>
   msg_clientId (signal_from ''A'' ''transport'' (JObj [(''position'', JNum 5)])) = Some ''A'' \<and>
   msg_content (signal_from ''A'' ''transport'' (JObj [(''position'', JNum 5)])) = JObj [(''position'', JNum 5)] \<and>
   scope_onSignal (verifyRolesAllowed (\<lambda>c. Inr [Attendee])) True
      \<lparr>allowedRoles = [], listeners = [listening ''transport'' 1, listening ''other'' 2, listening ''transport'' 3]\<rparr>
      (signal_from ''A'' ''transport'' (JObj [(''position'', JNum 5)])) False =
     (Inr (),
      [ListenerCalled 1 (JObj [(''position'', JNum 5), (''clientId'', JStr ''A'')]) False,
       ListenerCalled 3 (JObj [(''position'', JNum 5), (''clientId'', JStr ''A'')]) False])"
  using empty_allowedRoles_delivers [of
      "\<lparr>allowedRoles = [], listeners = [listening ''transport'' 1, listening ''other'' 2, listening ''transport'' 3]\<rparr>"
      "signal_from ''A'' ''transport'' (JObj [(''position'', JNum 5)])" "''A''" "[(''position'', JNum 5)]"
      False "\<lambda>c. Inr [Attendee]"]
  by (simp add: signal_from_def listening_def)

theorem disconnected_scope_counterexample:
  "allowedRoles \<lparr>allowedRoles = [], listeners = [listening ''transport'' 1]\<rparr> = [] \<and>
   msg_clientId (signal_from ''A'' ''transport'' (JObj [(''position'', JNum 5)])) = Some ''A'' \<and>
   l_event (listening ''transport'' 1) = msg_type (signal_from ''A'' ''transport'' (JObj [(''position'', JNum 5)])) \<and>
   scope_onSignal (verifyRolesAllowed (\<lambda>c. Inr [Attendee])) False
      \<lparr>allowedRoles = [], listeners = [listening ''transport'' 1]\<rparr>
      (signal_from ''A'' ''transport'' (JObj [(''position'', JNum 5)])) False = (Inr (), [])"
  by (simp add: scope_onSignal_def signal_from_def listening_def)

section \<open>The client id of a delivered envelope\<close>

text \<open>
  C3. Whenever the signal handler of an event scope calls a listener, the envelope it passes
  is an object whose \<^verbatim>\<open>clientId\<close> field is the client id the carrier supplied with the
  message, whatever \<^verbatim>\<open>clientId\<close> the content held when it arrived and whatever the role
  check answers.
\<close>

theorem delivered_clientId_is_carrier:
  assumes "ListenerCalled lid env loc \<in> set (snd (scope_onSignal verify connected sc m local))"
  shows "\<exists>cid fs. msg_clientId m = Some cid \<and> env = JObj fs \<and>
           map_of fs ''clientId'' = Some (JStr cid)"
proof (cases "msg_content m")
  case (JObj fs)
  show ?thesis
  proof (cases "msg_clientId m")
    case None
    with JObj assms show ?thesis by (simp add: scope_onSignal_def)
  next
    case (Some cid)
    let ?content = "JObj (AList.update ''clientId'' (JStr cid) fs)"
    from assms JObj Some
    have "ListenerCalled lid env loc \<in> set (fst (emit (listeners sc) (msg_type m) ?content local))"
      by (auto simp: scope_onSignal_def Let_def split: if_splits sum.splits prod.splits option.splits)
    then have "env = ?content"
      using emit_calls by blast
    moreover have "map_of (AList.update ''clientId'' (JStr cid) fs) ''clientId'' = Some (JStr cid)"
      by (simp add: AList.update_conv')
    ultimately show ?thesis using Some by blast
  qed
qed (use assms in \<open>simp_all add: scope_onSignal_def\<close>)

text \<open>
  In the example the sender wrote \<^verbatim>\<open>clientId: "forged"\<close> into the content; the listener
  receives the carrier's \<^verbatim>\<open>"A"\<close>.
\<close>

theorem delivered_clientId_is_carrier_witness:
  "ListenerCalled 1 (JObj [(''clientId'', JStr ''A''), (''position'', JNum 5)]) False
     \<in> set (snd (scope_onSignal (\<lambda>c roles. Inr True) True
          \<lparr>allowedRoles = [Presenter], listeners = [listening ''transport'' 1]\<rparr>
          (signal_from ''A'' ''transport'' (JObj [(''clientId'', JStr ''forged''), (''position'', JNum 5)]))
          False)) \<and>
   msg_clientId (signal_from ''A'' ''transport'' (JObj [(''clientId'', JStr ''forged''), (''position'', JNum 5)])) = Some ''A'' \<and>
   map_of [(''clientId'', JStr ''A''), (''position'', JNum 5)] ''clientId'' = Some (JStr ''A'')"
proof -
  let ?sc = "\<lparr>allowedRoles = [Presenter], listeners = [listening ''transport'' 1]\<rparr>"
  let ?m = "signal_from ''A'' ''transport'' (JObj [(''clientId'', JStr ''forged''), (''position'', JNum 5)])"
  have a: "ListenerCalled 1 (JObj [(''clientId'', JStr ''A''), (''position'', JNum 5)]) False
     \<in> set (snd (scope_onSignal (\<lambda>c roles. Inr True) True ?sc ?m False))"
    by (simp add: scope_onSignal_def signal_from_def listening_def)
  from delivered_clientId_is_carrier [OF a] obtain cid fs where
    c: "msg_clientId ?m = Some cid"
    and e: "JObj [(''clientId'', JStr ''A''), (''position'', JNum 5)] = JObj fs"
    and f: "map_of fs ''clientId'' = Some (JStr cid)"
    by blast
  have g: "msg_clientId ?m = Some ''A''"
    by (simp add: signal_from_def)
  with c have "cid = ''A''"
    by simp
  moreover from e have "fs = [(''clientId'', JStr ''A''), (''position'', JNum 5)]"
    by simp
  ultimately have "map_of [(''clientId'', JStr ''A''), (''position'', JNum 5)] ''clientId'' = Some (JStr ''A'')"
    using f by simp
  with a g show ?thesis by blast
qed

section \<open>The pong to a connect\<close>




section \<open>One update per tick\<close>

text \<open>
  C5. A tick submits at most one signal, whatever the number of registered objects, and a
  signal it submits is an \<^verbatim>\<open>update\<close>; when the mapping of the non-none states of the
  connected ids is empty, it submits none.
\<close>

theorem tick_single_update:
  "length (filter is_signal (tick s)) \<le> 1 \<and>
   (\<forall>e \<in> set (filter is_signal (tick s)). \<exists>c. e = SignalSubmitted UPDATE_EVENT c) \<and>
   (non_none_states s = [] \<longrightarrow> filter is_signal (tick s) = [])"
proof -
  have "filter is_signal (tick s) = []" if "non_none_states s = []"
  proof -
    from that have "\<forall>k\<in>set (connectedKeys s). object_state (objects s) k = None"
      using non_none_states_Nil by blast
    then have "fst (collectUpdates (objects s) (connectedKeys s) []) = []"
      by (simp add: collectUpdates_Nil)
    then show ?thesis
      by (simp add: tick_def sendGroupEvent_signals)
  qed
  then show ?thesis
    by (simp add: tick_def sendGroupEvent_signals)
qed

text \<open>
  Two synchronizers: one whose objects return \<^verbatim>\<open>undefined\<close> or throw, where the tick sends
  nothing, and one with three objects of state \<^verbatim>\<open>{v: 1}\<close>, where the tick sends one update
  that carries all three.
\<close>

theorem tick_single_update_witness:
  "non_none_states (connected_sync [(''o1'', reporting JUndefined), (''o2'', failing)]) = [] \<and>
   filter is_signal (tick (connected_sync [(''o1'', reporting JUndefined), (''o2'', failing)])) = [] \<and>
   filter is_signal (tick (connected_sync
       [(''o1'', reporting (JObj [(''v'', JNum 1)])), (''o2'', reporting (JObj [(''v'', JNum 1)])),
        (''o3'', reporting (JObj [(''v'', JNum 1)]))])) =
     [SignalSubmitted ''update''
        (JObj [(''o1'', JObj [(''v'', JNum 1)]), (''o2'', JObj [(''v'', JNum 1)]),
               (''o3'', JObj [(''v'', JNum 1)])])]"
proof -
  let ?s = "connected_sync [(''o1'', reporting JUndefined), (''o2'', failing)]"
  have h: "non_none_states ?s = []"
    by (simp add: non_none_states_def connected_sync_def reporting_def failing_def)
  with tick_single_update [of ?s] have "filter is_signal (tick ?s) = []"
    by blast
  moreover have "filter is_signal (tick (connected_sync
       [(''o1'', reporting (JObj [(''v'', JNum 1)])), (''o2'', reporting (JObj [(''v'', JNum 1)])),
        (''o3'', reporting (JObj [(''v'', JNum 1)]))])) =
     [SignalSubmitted ''update''
        (JObj [(''o1'', JObj [(''v'', JNum 1)]), (''o2'', JObj [(''v'', JNum 1)]),
               (''o3'', JObj [(''v'', JNum 1)])])]"
    by (simp add: tick_def sendGroupEvent_def connected_sync_def reporting_def UPDATE_EVENT_def)
  ultimately show ?thesis using h by blast
qed

section \<open>Duplicate registration\<close>

text \<open>
  C6. Registering an id that is still in the objects map throws at once and leaves the
  synchronizer as it was, with no effect on the outside: objects map, key lists, reference
  count and timer are unchanged. Constructing a second \<^verbatim>\<open>LiveObjectSynchronizer\<close> for the
  same container runtime and id therefore throws out of the constructor and leaves the
  registry as it was.
\<close>

theorem duplicate_registration_rejected:
  assumes "objects s oid = Some h0"
  shows "registerObject connected interval oid h s = (Inl (TooManyCalls oid), s, []) \<and>
     (reg containerRuntime = Some s \<longrightarrow>
        new_LiveObjectSynchronizer conn interval oid rt containerRuntime h reg =
          (Inl (TooManyCalls oid), reg, []))"
proof -
  have r: "registerObject c interval oid h s = (Inl (TooManyCalls oid), s, [])" for c
    using assms by (simp add: registerObject_def)
  have "new_LiveObjectSynchronizer conn interval oid rt containerRuntime h reg =
          (Inl (TooManyCalls oid), reg, [])" if "reg containerRuntime = Some s"
  proof -
    have "reg(containerRuntime \<mapsto> s) = reg"
      using that by (rule map_upd_triv)
    then show ?thesis
      using that r by (simp add: new_LiveObjectSynchronizer_def LOS_registerObject_def)
  qed
  with r show ?thesis by blast
qed

theorem duplicate_registration_rejected_witness:
  "new_LiveObjectSynchronizer (\<lambda>r. True) 5000 ''o1'' 0 0 (reporting (JObj [(''v'', JNum 1)])) Map.empty =
     (Inr \<lparr>f_id = ''o1'', f_containerRuntime = 0, f_isDisposed = False\<rparr>,
      [0 \<mapsto> \<lparr>runtime = 0, objects = [''o1'' \<mapsto> reporting (JObj [(''v'', JNum 1)])],
              unconnectedKeys = [], connectedKeys = [''o1''], refCount = 1, hTimer = Some 5000\<rparr>],
      [GetStateCalled ''o1'' True,
       SignalSubmitted ''connect'' (JObj [(''o1'', JObj [(''v'', JNum 1)])])]) \<and>
   registerObject True 5000 ''o1'' (reporting JNull)
       \<lparr>runtime = 0, objects = [''o1'' \<mapsto> reporting (JObj [(''v'', JNum 1)])],
        unconnectedKeys = [], connectedKeys = [''o1''], refCount = 1, hTimer = Some 5000\<rparr> =
     (Inl (TooManyCalls ''o1''),
      \<lparr>runtime = 0, objects = [''o1'' \<mapsto> reporting (JObj [(''v'', JNum 1)])],
       unconnectedKeys = [], connectedKeys = [''o1''], refCount = 1, hTimer = Some 5000\<rparr>, []) \<and>
   new_LiveObjectSynchronizer (\<lambda>r. True) 5000 ''o1'' 0 0 (reporting JNull)
       [0 \<mapsto> \<lparr>runtime = 0, objects = [''o1'' \<mapsto> reporting (JObj [(''v'', JNum 1)])],
               unconnectedKeys = [], connectedKeys = [''o1''], refCount = 1, hTimer = Some 5000\<rparr>] =
     (Inl (TooManyCalls ''o1''),
      [0 \<mapsto> \<lparr>runtime = 0, objects = [''o1'' \<mapsto> reporting (JObj [(''v'', JNum 1)])],
              unconnectedKeys = [], connectedKeys = [''o1''], refCount = 1, hTimer = Some 5000\<rparr>], [])"
proof -
  let ?s1 = "\<lparr>runtime = 0, objects = [''o1'' \<mapsto> reporting (JObj [(''v'', JNum 1)])],
       unconnectedKeys = [], connectedKeys = [''o1''], refCount = 1, hTimer = Some (5000::nat)\<rparr>"
  have first: "new_LiveObjectSynchronizer (\<lambda>r. True) 5000 ''o1'' 0 0 (reporting (JObj [(''v'', JNum 1)])) Map.empty =
     (Inr \<lparr>f_id = ''o1'', f_containerRuntime = 0, f_isDisposed = False\<rparr>, [0 \<mapsto> ?s1],
      [GetStateCalled ''o1'' True,
       SignalSubmitted ''connect'' (JObj [(''o1'', JObj [(''v'', JNum 1)])])])"
    by (simp add: new_LiveObjectSynchronizer_def LOS_registerObject_def registerObject_def
        new_ContainerSynchronizer_def reporting_def CONNECT_EVENT_def Let_def)
  have reg: "objects ?s1 ''o1'' = Some (reporting (JObj [(''v'', JNum 1)]))"
    by simp
  have "[0 \<mapsto> ?s1] (0::nat) = Some ?s1"
    by simp
  with duplicate_registration_rejected [OF reg, of True 5000 "reporting JNull" "[0 \<mapsto> ?s1]" 0 "\<lambda>r. True" 0]
  have "registerObject True 5000 ''o1'' (reporting JNull) ?s1 = (Inl (TooManyCalls ''o1''), ?s1, []) \<and>
        new_LiveObjectSynchronizer (\<lambda>r. True) 5000 ''o1'' 0 0 (reporting JNull) [0 \<mapsto> ?s1] =
          (Inl (TooManyCalls ''o1''), [0 \<mapsto> ?s1], [])"
    by blast
  with first show ?thesis by blast
qed

section \<open>A failing callback during a tick\<close>




section \<open>The freshness rule is a total order\<close>

text \<open>
  C8. The relation \<open>newer\<close> is a strict total order on envelopes: no two envelopes are each
  newer than the other, it is transitive, and of \<open>newer a b\<close>, \<open>newer b a\<close> and
  "\<open>a\<close> and \<open>b\<close> carry the same time stamp and client id" exactly one holds. Of two
  envelopes with time stamp 1000 and client ids \<^verbatim>\<open>"A"\<close> and \<^verbatim>\<open>"B"\<close>, the one from
  \<^verbatim>\<open>"B"\<close> is newer.
\<close>

theorem newer_total_order:
  "(newer a b \<longrightarrow> \<not> newer b a) \<and>
   (newer a b \<and> newer b c \<longrightarrow> newer a c) \<and>
   ((newer a b \<and> \<not> newer b a \<and> \<not> same_stamp a b) \<or>
    (\<not> newer a b \<and> newer b a \<and> \<not> same_stamp a b) \<or>
    (\<not> newer a b \<and> \<not> newer b a \<and> same_stamp a b)) \<and>
   (ev_timestamp a = 1000 \<and> ev_clientId a = ''A'' \<and> ev_timestamp b = 1000 \<and> ev_clientId b = ''B''
      \<longrightarrow> newer b a)"
proof -
  have tie: "ev_timestamp a = 1000 \<and> ev_clientId a = ''A'' \<and> ev_timestamp b = 1000 \<and> ev_clientId b = ''B''
      \<longrightarrow> newer b a"
    by (simp add: newer_def)
  from newer_asym [of a b] newer_trans [of a b c] newer_trichotomy [of a b] tie
  show ?thesis by blast
qed

theorem newer_total_order_witness:
  "newer (stamped 1000 ''B'') (stamped 1000 ''A'') \<and>
   \<not> newer (stamped 1000 ''A'') (stamped 1000 ''B'') \<and>
   \<not> same_stamp (stamped 1000 ''A'') (stamped 1000 ''B'') \<and>
   newer (stamped 2000 ''A'') (stamped 1000 ''B'') \<and>
   newer (stamped 2000 ''A'') (stamped 1000 ''A'')"
proof -
  have tie: "newer (stamped 1000 ''B'') (stamped 1000 ''A'')"
    using newer_total_order [of "stamped 1000 ''A''" "stamped 1000 ''B''" "stamped 1000 ''A''"]
    by (simp add: stamped_def)
  have later: "newer (stamped 2000 ''A'') (stamped 1000 ''B'')"
    by (simp add: newer_def stamped_def)
  from tie newer_total_order [of "stamped 1000 ''B''" "stamped 1000 ''A''" "stamped 1000 ''A''"]
  have no: "\<not> newer (stamped 1000 ''A'') (stamped 1000 ''B'')"
    by blast
  from tie no newer_total_order [of "stamped 1000 ''A''" "stamped 1000 ''B''" "stamped 1000 ''A''"]
  have ne: "\<not> same_stamp (stamped 1000 ''A'') (stamped 1000 ''B'')"
    by blast
  from later tie newer_total_order [of "stamped 2000 ''A''" "stamped 1000 ''B''" "stamped 1000 ''A''"]
  have "newer (stamped 2000 ''A'') (stamped 1000 ''A'')"
    by blast
  with tie no ne later show ?thesis by blast
qed

section \<open>Null entries of a payload\<close>



section \<open>Unregistering an unknown id\<close>

text \<open>
  C10. \<^verbatim>\<open>unregisterObject\<close> called with an id that is not in the objects map returns
  \<^verbatim>\<open>false\<close> and returns the synchronizer as it was: objects map, both key lists, reference
  count and timer handle are those of before the call.
\<close>

theorem unregisterObject_unknown_id:
  "objects s oid = None \<Longrightarrow> unregisterObject oid s = (False, s)"
  by (simp add: unregisterObject_def)

theorem unregisterObject_unknown_id_witness:
  "objects (new_ContainerSynchronizer 0) ''o1'' = None \<and>
   unregisterObject ''o1'' (new_ContainerSynchronizer 0) = (False, new_ContainerSynchronizer 0)"
  using unregisterObject_unknown_id [of "new_ContainerSynchronizer 0" "''o1''"]
  by (simp add: new_ContainerSynchronizer_def)

end
